theory Spec2Isabelle
  imports Main
begin

section \<open>Strings of the key normalizer\<close>

text \<open>
  Python strings are modelled as \<open>string\<close> over the code points 0..255 (ASCII and
  Latin-1), which covers every key name the program stores. \<open>str.lower()\<close> maps
  \<open>A..Z\<close> and the Latin-1 capitals (192..222 without the multiplication sign 215) to
  the code point 32 above and leaves every other character alone. Code points above 255
  are outside the model; among them are capitals that \<open>str.lower()\<close> leaves as they
  are, so what is proved about upper-case characters is proved for Latin-1 text.
\<close>

definition is_upper :: "char \<Rightarrow> bool" where
  "is_upper c = (let n = (of_char c :: nat) in
     (65 \<le> n \<and> n \<le> 90) \<or> (192 \<le> n \<and> n \<le> 222 \<and> n \<noteq> 215))"

definition lower_char :: "char \<Rightarrow> char" where
  "lower_char c = (if is_upper c then char_of (of_char c + (32::nat)) else c)"

definition lower :: "string \<Rightarrow> string" where
  "lower s = map lower_char s"

text \<open>
  \<open>str.strip()\<close> removes white space at both ends: tab, line feed, vertical tab, form
  feed, carriage return, the separators 28..31, the space, NEL (133) and the no-break
  space (160).
\<close>

definition is_space :: "char \<Rightarrow> bool" where
  "is_space c = (let n = (of_char c :: nat) in
     (9 \<le> n \<and> n \<le> 13) \<or> (28 \<le> n \<and> n \<le> 32) \<or> n = 133 \<or> n = 160)"

definition strip :: "string \<Rightarrow> string" where
  "strip s = rev (dropWhile is_space (rev (dropWhile is_space s)))"

text \<open>\<open>s.startswith("_")\<close> and \<open>s.lstrip("_")\<close>.\<close>

definition startswith_underscore :: "string \<Rightarrow> bool" where
  "startswith_underscore s = (case s of [] \<Rightarrow> False | c # _ \<Rightarrow> c = CHR ''_'')"

definition lstrip_underscore :: "string \<Rightarrow> string" where
  "lstrip_underscore s = dropWhile (\<lambda>c. c = CHR ''_'') s"

section \<open>Key values\<close>

text \<open>
  The values that reach the key functions are duck-typed. The model keeps what the code
  looks at: whether the value is a \<open>str\<close>, whether it has a \<open>name\<close> attribute holding a
  string, and what \<open>str(value)\<close> returns.
  \<^item> \<open>PNone\<close> is \<open>None\<close> (the listener delivers it for an unknown key);
  \<^item> \<open>PStr s\<close> is the string \<open>s\<close>;
  \<^item> \<open>PNamed n r\<close> is an object with \<open>name == n\<close> and \<open>str() == r\<close>, such as the enum
    member \<open>Key.f1\<close> (\<open>PNamed ''f1'' ''Key.f1''\<close>);
  \<^item> \<open>PPlain r\<close> is any other object, without a usable \<open>name\<close>, with \<open>str() == r\<close>, such
    as the \<open>KeyCode\<close> of the character a (\<open>PPlain "'a'"\<close>, quotes included).
  These are the values the program passes around: configuration strings and what the
  input library delivers, for all of which \<open>str\<close> returns. Objects whose \<open>__str__\<close>
  raises are the separate type \<open>pyobj\<close> below.
\<close>

datatype pyval = PNone | PStr string | PNamed string string | PPlain string

fun py_str :: "pyval \<Rightarrow> string" where
  "py_str PNone = ''None''"
| "py_str (PStr s) = s"
| "py_str (PNamed n r) = r"
| "py_str (PPlain r) = r"

text \<open>Truth value of a key value, as \<open>if self.custom_key:\<close> tests it.\<close>

fun truthy :: "pyval \<Rightarrow> bool" where
  "truthy PNone = False"
| "truthy (PStr s) = (s \<noteq> [])"
| "truthy (PNamed n r) = True"
| "truthy (PPlain r) = True"

definition Key_f1 :: pyval where "Key_f1 = PNamed ''f1'' ''Key.f1''"
definition Key_f2 :: pyval where "Key_f2 = PNamed ''f2'' ''Key.f2''"
definition Key_f3 :: pyval where "Key_f3 = PNamed ''f3'' ''Key.f3''"

text \<open>
  \<open>_string_to_key\<close>. The enum \<open>Key\<close> belongs to the input library, so the attribute
  lookup \<open>getattr(Key, name)\<close> is the parameter \<open>K\<close>: \<open>K name = None\<close> stands for
  \<open>AttributeError\<close>. A value that is not a string has no \<open>lower\<close>, the inner \<open>raise\<close>
  re-raises the \<open>AttributeError\<close>, and the outer handler turns both into \<open>Key.f1\<close>.
\<close>

definition string_to_key :: "(string \<Rightarrow> pyval option) \<Rightarrow> pyval \<Rightarrow> pyval" where
  "string_to_key K key_str =
     (case key_str of
        PStr s \<Rightarrow>
          (let key_str_clean = strip (lower s) in
           case K key_str_clean of
             Some result \<Rightarrow> result
           | None \<Rightarrow>
               (case K (CHR ''_'' # key_str_clean) of
                  Some result \<Rightarrow> result
                | None \<Rightarrow>
                    if length key_str_clean = 1 then PStr key_str_clean else Key_f1))
      | _ \<Rightarrow> Key_f1)"

text \<open>
  \<open>_key_to_string\<close>: \<open>key.name\<close> raises for everything but a named object, and the
  handler returns \<open>"f1"\<close>. One leading underscore is removed.
\<close>

definition key_to_string :: "pyval \<Rightarrow> string" where
  "key_to_string key =
     (case key of
        PNamed n r \<Rightarrow>
          (let key_name = lower n in
           if startswith_underscore key_name then tl key_name else key_name)
      | _ \<Rightarrow> ''f1'')"

text \<open>
  \<open>_normalize_key\<close>: a string is lower-cased; a named object gives its lower-cased name
  without leading underscores; anything else goes through \<open>str\<close>.
\<close>

definition normalize_key :: "pyval \<Rightarrow> string" where
  "normalize_key key =
     (case key of
        PStr s \<Rightarrow> lower s
      | PNamed n r \<Rightarrow> lstrip_underscore (lower n)
      | _ \<Rightarrow> lower (py_str key))"

text \<open>
  \<open>_normalize_key\<close> on objects at large. \<open>Returns v\<close> is a value as above;
  \<open>Raises nm m\<close> is an object whose \<open>__str__\<close> raises the exception \<open>m\<close>, with \<open>nm\<close> its
  \<open>name\<close> when it has one that is a string. The result is \<open>Inr\<close> the string returned or
  \<open>Inl\<close> the exception that leaves the function. The inner handler
  \<open>except: return str(key).lower()\<close> calls \<open>str\<close> outside any \<open>try\<close> of its own, so a failure
  there reaches the outer handler, which makes the same call again with nothing around
  it.
\<close>

datatype pyobj = Returns pyval | Raises "string option" string

definition str_obj :: "pyobj \<Rightarrow> string + string" where
  "str_obj key = (case key of Returns v \<Rightarrow> Inr (py_str v) | Raises nm m \<Rightarrow> Inl m)"

definition name_obj :: "pyobj \<Rightarrow> string option" where
  "name_obj key =
     (case key of
        Returns (PNamed n r) \<Rightarrow> Some n
      | Returns _ \<Rightarrow> None
      | Raises nm m \<Rightarrow> nm)"

definition normalize_key_obj :: "pyobj \<Rightarrow> string + string" where
  "normalize_key_obj key =
     (case key of
        Returns (PStr s) \<Rightarrow> Inr (lower s)
      | _ \<Rightarrow>
          (case name_obj key of
             Some n \<Rightarrow> Inr (lstrip_underscore (lower n))
           | None \<Rightarrow>
               (case str_obj key of
                  Inr r \<Rightarrow> Inr (lower r)
                | Inl m \<Rightarrow>
                    (case str_obj key of
                       Inr r \<Rightarrow> Inr (lower r)
                     | Inl m' \<Rightarrow> Inl m'))))"

text \<open>
  The attributes of \<open>pynput.keyboard.Key\<close> as the library documents them. The library
  is not part of the repository: the general theorems below hold for every lookup \<open>K\<close>,
  and this table only serves to run the functions on concrete names.
  \<^item> \<open>Key_members\<close>: the members, each found under its own name.
  \<^item> \<open>Key_aliases\<close>: names that the X11 and macOS back ends define with the value of
    another member; an enum makes such a name an alias, so \<open>getattr(Key, "alt_l")\<close> is
    \<open>Key.alt\<close> and its \<open>name\<close> is \<open>alt\<close>.
  \<^item> The class has attributes that are no members (\<open>mro\<close>, \<open>__doc__\<close>, ...), which
    \<open>getattr\<close> finds as well; \<open>mro\<close>, a bound method without \<open>name\<close>, stands for them
    (its text is given without the address).
\<close>

definition Key_members :: "string list" where
  "Key_members =
     [''alt'', ''alt_r'', ''alt_gr'', ''backspace'', ''caps_lock'', ''cmd'',
      ''cmd_r'', ''ctrl'', ''ctrl_r'', ''delete'', ''down'', ''end'',
      ''enter'', ''esc'', ''f1'', ''f2'', ''f3'', ''f4'', ''f5'', ''f6'', ''f7'', ''f8'',
      ''f9'', ''f10'', ''f11'', ''f12'', ''f13'', ''f14'', ''f15'', ''f16'', ''f17'',
      ''f18'', ''f19'', ''f20'', ''home'', ''left'', ''page_down'', ''page_up'', ''right'',
      ''shift'', ''shift_r'', ''space'', ''tab'', ''up'', ''media_play_pause'',
      ''media_volume_mute'', ''media_volume_down'', ''media_volume_up'', ''media_previous'',
      ''media_next'', ''insert'', ''menu'', ''num_lock'', ''pause'', ''print_screen'',
      ''scroll_lock'']"

definition Key_aliases :: "(string \<times> string) list" where
  "Key_aliases =
     [(''alt_l'', ''alt''), (''cmd_l'', ''cmd''), (''ctrl_l'', ''ctrl''), (''shift_l'', ''shift'')]"

definition Key_getattr :: "string \<Rightarrow> pyval option" where
  "Key_getattr name =
     (case map_of Key_aliases name of
        Some member \<Rightarrow> Some (PNamed member (''Key.'' @ member))
      | None \<Rightarrow>
          if name \<in> set Key_members then Some (PNamed name (''Key.'' @ name))
          else if name = ''mro'' then Some (PPlain ''<built-in method mro of EnumType object>'')
          else None)"

section \<open>Engine state, configuration and observable events\<close>

text \<open>
  A value of the configuration dictionary (\<open>ConfigManager.config\<close>), and the dictionary
  itself. \<open>config_mgr.set(key, value)\<close> stores the value and then tries to rewrite the
  file; the attempt is the event \<open>WriteConfig\<close>, since \<open>save_config\<close> swallows a failed
  write.
\<close>

datatype cval = CNone | CInt int | CStr string

datatype button = Button_left | Button_middle | Button_right | Button_unknown

text \<open>
  What the program does to the outside: calls of the input capability, sleeps (in
  milliseconds, the numerator of \<open>time.sleep(ms / 1000)\<close>), status messages, the warning
  box, the start of an execution-loop thread, a write of the configuration file, and the
  delayed shutdown.
\<close>

datatype event =
    Move "int option" "int option"
  | Sleep int
  | MClick button
  | MPress button
  | MRelease button
  | KPress pyval
  | KRelease pyval
  | Status string string
  | Warning string
  | Spawn
  | WriteConfig
  | Coordinates_updated int int
  | ScheduleClose

record engine =
  is_running :: bool
  is_paused :: bool
  capture_mode :: bool
  saved_x :: "int option"
  saved_y :: "int option"
  action_type :: string
  button_type :: string
  click_delay_ms :: int
  hold_duration_ms :: int
  custom_key :: pyval
  key_start :: pyval
  key_pause :: pyval
  key_exit :: pyval
  config :: "string \<rightharpoonup> cval"

text \<open>\<open>ConfigManager.default_config\<close> and the state \<open>__init__\<close> builds from it.\<close>

definition default_config :: "string \<rightharpoonup> cval" where
  "default_config = map_of
     [(''theme'', CStr ''dark''), (''button_type'', CStr ''esquerdo''),
      (''saved_x'', CNone), (''saved_y'', CNone),
      (''key_start'', CStr ''f1''), (''key_pause'', CStr ''f2''), (''key_exit'', CStr ''f3''),
      (''click_delay_ms'', CInt 100), (''action_type'', CStr ''click''),
      (''hold_duration_ms'', CInt 500), (''custom_key_name'', CStr ''Nenhuma'')]"

definition default_engine :: "(string \<Rightarrow> pyval option) \<Rightarrow> engine" where
  "default_engine K =
     \<lparr> is_running = False, is_paused = False, capture_mode = False,
       saved_x = None, saved_y = None,
       action_type = ''click'', button_type = ''esquerdo'',
       click_delay_ms = 100, hold_duration_ms = 500,
       custom_key = PNone,
       key_start = string_to_key K (PStr ''f1''),
       key_pause = string_to_key K (PStr ''f2''),
       key_exit = string_to_key K (PStr ''f3''),
       config = default_config \<rparr>"

section \<open>Releasing inputs\<close>

text \<open>
  \<open>_release_all\<close>: each release sits in its own \<open>try\<close> with a bare \<open>except: pass\<close>, so
  the three attempts are made whatever the capability answers.
\<close>

definition release_all :: "engine \<Rightarrow> event list" where
  "release_all s =
     [MRelease Button_left, MRelease Button_right] @
     (if truthy (custom_key s) then [KRelease (custom_key s)] else [])"

section \<open>Hotkey dispatcher\<close>

text \<open>
  \<open>_on_key_press\<close> of the PyQt6 version; the Tkinter 2.0 handler has the same branches
  and the same assignments and differs only in how the status text reaches the window.
  The result is the new state and what was emitted.
\<close>

definition on_key_press :: "engine \<Rightarrow> pyval \<Rightarrow> engine \<times> event list" where
  "on_key_press s key =
     (let key_pressed = normalize_key key;
          k_start = normalize_key (key_start s);
          k_pause = normalize_key (key_pause s);
          k_exit = normalize_key (key_exit s)
      in if key_pressed = k_start then
           (if saved_x s = None \<or> saved_y s = None then
              (s, [Warning ''Por favor, capture uma coordenada primeiro!''])
            else
              (s\<lparr>is_running := True, is_paused := False\<rparr>,
               [Status ''Executando...'' ''success'', Spawn]))
         else if key_pressed = k_pause then
           (s\<lparr>is_running := False, is_paused := True\<rparr>,
            release_all s @ [Status ''Pausado'' ''warning''])
         else if key_pressed = k_exit then
           (s\<lparr>is_running := False, is_paused := False\<rparr>,
            release_all s @ [WriteConfig, ScheduleClose])
         else (s, []))"

section \<open>Coordinate capture\<close>

definition start_capture_mode :: "engine \<Rightarrow> engine \<times> event list" where
  "start_capture_mode s =
     (s\<lparr>capture_mode := True\<rparr>, [Status ''Aguardando clique na tela...'' ''warning''])"

definition on_mouse_click :: "engine \<Rightarrow> int \<Rightarrow> int \<Rightarrow> button \<Rightarrow> bool \<Rightarrow> engine \<times> event list" where
  "on_mouse_click s x y b pressed =
     (if capture_mode s \<and> pressed then
        (s\<lparr>saved_x := Some x, saved_y := Some y, capture_mode := False,
           config := (config s)(''saved_x'' \<mapsto> CInt x, ''saved_y'' \<mapsto> CInt y)\<rparr>,
         [WriteConfig, WriteConfig, Coordinates_updated x y,
          Status ''Coordenada capturada!'' ''success''])
      else (s, []))"

section \<open>Execution loop of version 2.0 (PyQt6)\<close>

text \<open>
  A call of the input capability may raise. \<open>bad e\<close> is the message of the exception
  the call \<open>e\<close> raises, \<open>None\<close> when it returns. A block of statements yields the events
  it got to and the exception that cut it short, if any.
\<close>

type_synonym faults = "event \<Rightarrow> string option"

type_synonym block = "event list \<times> string option"

definition no_faults :: faults where
  "no_faults = (\<lambda>e. None)"

definition call :: "faults \<Rightarrow> event \<Rightarrow> block" where
  "call bad e = ([e], bad e)"

text \<open>
  \<open>time.sleep\<close> raises \<open>ValueError\<close> on a negative length. Lengths beyond what the
  platform's clock can hold, where it raises \<open>OverflowError\<close>, are not modelled.
\<close>

definition sleep :: "int \<Rightarrow> block" where
  "sleep ms =
     (if ms < 0 then ([], Some ''sleep length must be non-negative'') else ([Sleep ms], None))"

definition and_then :: "block \<Rightarrow> block \<Rightarrow> block" where
  "and_then c1 c2 = (case snd c1 of Some e \<Rightarrow> c1 | None \<Rightarrow> (fst c1 @ fst c2, snd c2))"

text \<open>
  \<open>_perform_action\<close> and \<open>_perform_keyboard_action\<close> catch every exception and print it:
  only the events remain.
\<close>

definition perform_action :: "faults \<Rightarrow> engine \<Rightarrow> button \<Rightarrow> string \<Rightarrow> event list" where
  "perform_action bad s b a =
     (if a = ''click'' then [MClick b]
      else fst (and_then (call bad (MPress b))
                 (and_then (sleep (hold_duration_ms s)) (call bad (MRelease b)))))"

definition perform_keyboard_action :: "faults \<Rightarrow> engine \<Rightarrow> pyval \<Rightarrow> string \<Rightarrow> event list" where
  "perform_keyboard_action bad s k a =
     (if a = ''click'' then
        fst (and_then (call bad (KPress k)) (and_then (sleep 50) (call bad (KRelease k))))
      else
        fst (and_then (call bad (KPress k))
              (and_then (sleep (hold_duration_ms s)) (call bad (KRelease k)))))"

text \<open>
  One pass through the body of \<open>while self.is_running\<close>, on the state \<open>s\<close> as the pass
  reads it. \<open>Next\<close>: the body ran to its end; \<open>Break\<close>: the \<open>break\<close> of the missing custom
  key (\<open>None\<close> as the action); \<open>Raised m\<close>: an exception left the body.
\<close>

datatype outcome = Next | Break | Raised string

definition iteration :: "faults \<Rightarrow> engine \<Rightarrow> event list \<times> outcome" where
  "iteration bad s =
     (let bt = button_type s;
          c1 = (if bt = ''esquerdo'' \<or> bt = ''direito''
                then and_then (call bad (Move (saved_x s) (saved_y s))) (sleep 50)
                else ([], None))
      in case snd c1 of
           Some m \<Rightarrow> (fst c1, Raised m)
         | None \<Rightarrow>
             (let a2 = (if bt = ''esquerdo'' then
                          Some (perform_action bad s Button_left (action_type s))
                        else if bt = ''direito'' then
                          Some (perform_action bad s Button_right (action_type s))
                        else if bt = ''custom'' then
                          (if truthy (custom_key s) then
                             Some (perform_keyboard_action bad s (custom_key s) (action_type s))
                           else None)
                        else Some [])
              in case a2 of
                   None \<Rightarrow>
                     (fst c1 @ [Status ''Erro: Nenhuma tecla customizada selecionada'' ''error''],
                      Break)
                 | Some t2 \<Rightarrow>
                     (let c3 = (if action_type s = ''click'' then sleep (click_delay_ms s)
                                else sleep (hold_duration_ms s + click_delay_ms s))
                      in (fst c1 @ t2 @ fst c3,
                          case snd c3 of Some m \<Rightarrow> Raised m | None \<Rightarrow> Next))))"

text \<open>
  The loop. The flag \<open>is_running\<close> is written by other threads, so the run is described
  by the passes it makes: one list element per check that read \<open>True\<close>, holding the
  capability's answers and the state during that pass; after the last element the check
  reads \<open>False\<close>. The result \<open>Next\<close> means that the loop ended by the flag.
\<close>

fun loop :: "(faults \<times> engine) list \<Rightarrow> event list \<times> outcome" where
  "loop [] = ([], Next)"
| "loop (p # ps) =
     (case iteration (fst p) (snd p) of
        (t, Next) \<Rightarrow> (t @ fst (loop ps), snd (loop ps))
      | (t, r) \<Rightarrow> (t, r))"

definition button_map :: "int \<Rightarrow> string" where
  "button_map checked =
     (if checked = 0 then ''esquerdo'' else if checked = 1 then ''direito''
      else if checked = 2 then ''custom'' else ''esquerdo'')"

text \<open>
  \<open>_execute_macro\<close>: \<open>checked\<close> is the id of the selected radio button, \<open>passes\<close> the
  passes of the loop, \<open>fin\<close> the state when the loop is left. The loop's own assignment
  to \<open>button_type\<close> holds in every pass. The exception handler only reports.
\<close>

definition execute_macro_start :: "engine \<Rightarrow> int \<Rightarrow> engine" where
  "execute_macro_start s checked =
     s\<lparr>button_type := button_map checked,
       config := (config s)(''button_type'' \<mapsto> CStr (button_map checked))\<rparr>"

definition execute_macro :: "int \<Rightarrow> (faults \<times> engine) list \<Rightarrow> engine \<Rightarrow> event list" where
  "execute_macro checked passes fin =
     (let r = loop (map (\<lambda>p. (fst p, (snd p)\<lparr>button_type := button_map checked\<rparr>)) passes)
      in [WriteConfig] @ fst r @
         (case snd r of
            Raised m \<Rightarrow> [Status (''Erro: '' @ m) ''error'']
          | _ \<Rightarrow> release_all fin @ [Status ''Parado'' ''error'']))"

section \<open>Execution loop of version 2.0 (Tkinter)\<close>

text \<open>
  The Tkinter \<open>_execute_macro\<close> reads the action and the button type once, into local
  variables, and moves the pointer once, before the loop; its loop body is the PyQt6 body
  without the move. \<open>s0\<close> is the state when the thread starts and \<open>bad0\<close> the
  capability's answers then. The status goes through \<open>_update_status\<close> with a colour of
  the theme; the event keeps the name of the theme entry.
\<close>

definition iteration_tk :: "faults \<Rightarrow> string \<Rightarrow> string \<Rightarrow> engine \<Rightarrow> event list \<times> outcome" where
  "iteration_tk bad bt action s =
     (let a2 = (if bt = ''esquerdo'' then Some (perform_action bad s Button_left action)
                else if bt = ''direito'' then Some (perform_action bad s Button_right action)
                else if bt = ''custom'' then
                  (if truthy (custom_key s) then
                     Some (perform_keyboard_action bad s (custom_key s) action)
                   else None)
                else Some [])
      in case a2 of
           None \<Rightarrow> ([Status ''Erro: Nenhuma tecla customizada selecionada'' ''error''], Break)
         | Some t2 \<Rightarrow>
             (let c3 = (if action = ''click'' then sleep (click_delay_ms s)
                        else sleep (hold_duration_ms s + click_delay_ms s))
              in (t2 @ fst c3, case snd c3 of Some m \<Rightarrow> Raised m | None \<Rightarrow> Next)))"

fun loop_tk :: "string \<Rightarrow> string \<Rightarrow> (faults \<times> engine) list \<Rightarrow> event list \<times> outcome" where
  "loop_tk bt action [] = ([], Next)"
| "loop_tk bt action (p # ps) =
     (case iteration_tk (fst p) bt action (snd p) of
        (t, Next) \<Rightarrow> (t @ fst (loop_tk bt action ps), snd (loop_tk bt action ps))
      | (t, r) \<Rightarrow> (t, r))"

definition execute_macro_tk ::
  "faults \<Rightarrow> engine \<Rightarrow> (faults \<times> engine) list \<Rightarrow> engine \<Rightarrow> event list" where
  "execute_macro_tk bad0 s0 passes fin =
     (let action = action_type s0;
          bt = button_type s0;
          c1 = (if bt = ''esquerdo'' \<or> bt = ''direito''
                then and_then (call bad0 (Move (saved_x s0) (saved_y s0))) (sleep 50)
                else ([], None))
      in case snd c1 of
           Some m \<Rightarrow> fst c1 @ [Status (''Erro: '' @ m) ''error'']
         | None \<Rightarrow>
             (let r = loop_tk bt action passes
              in fst c1 @ fst r @
                 (case snd r of
                    Raised m \<Rightarrow> [Status (''Erro: '' @ m) ''error'']
                  | _ \<Rightarrow> release_all fin @ [Status ''Parado'' ''error''])))"

text \<open>The time a trace asks to sleep, in milliseconds.\<close>

fun slept :: "event list \<Rightarrow> int" where
  "slept [] = 0"
| "slept (Sleep ms # es) = ms + slept es"
| "slept (e # es) = slept es"

section \<open>Execution loop of version 1.0\<close>

text \<open>
  \<open>_execute_macro\<close> of version 1.0, for a run whose flag reads \<open>True\<close> \<open>n\<close> times. The
  status goes through \<open>_update_status\<close>, which swallows its own failures.
\<close>

definition execute_macro_v1 ::
  "faults \<Rightarrow> string \<Rightarrow> int option \<Rightarrow> int option \<Rightarrow> nat \<Rightarrow> event list" where
  "execute_macro_v1 bad bt x y n =
     (let b = (if bt = ''esquerdo'' then Button_left else Button_right);
          c = and_then (call bad (Move x y))
                (and_then (sleep 100)
                  (and_then (call bad (MPress b))
                    (and_then (replicate n (Sleep 50), None) (call bad (MRelease b)))))
      in fst c @
         (case snd c of
            Some m \<Rightarrow> [Status (''Erro: '' @ m) ''red'']
          | None \<Rightarrow> [Status ''Parado'' ''red'']))"

definition is_press :: "event \<Rightarrow> bool" where
  "is_press e = (case e of MPress b \<Rightarrow> True | MClick b \<Rightarrow> True | _ \<Rightarrow> False)"

definition is_release :: "event \<Rightarrow> bool" where
  "is_release e = (case e of MRelease b \<Rightarrow> True | MClick b \<Rightarrow> True | _ \<Rightarrow> False)"

section \<open>Hotkey capture\<close>

text \<open>
  What can happen while a hotkey capture is open: a key arrives, the wait
  \<open>join(timeout=...)\<close> on the capture listener runs out, or the capture dialog is closed.
  A session is the engine and whether the capture listener is still delivering keys.
\<close>

datatype capture_event = Key_pressed pyval | Join_timeout | Dialog_closed

text \<open>
  \<open>on_press\<close> inside \<open>_capture_hotkey_rebind\<close> (PyQt6). The name comes from \<open>key.name\<close>
  without one leading underscore, or from \<open>str(key)\<close> without apostrophes.
\<close>

definition rebind_name :: "pyval \<Rightarrow> string" where
  "rebind_name key =
     (case key of
        PNamed n r \<Rightarrow> if startswith_underscore n then tl n else n
      | _ \<Rightarrow> filter (\<lambda>c. c \<noteq> CHR 0x27) (py_str key))"

definition on_press_rebind :: "string \<Rightarrow> engine \<Rightarrow> pyval \<Rightarrow> engine" where
  "on_press_rebind hotkey_type s key =
     (let key_name_clean = lower (rebind_name key)
      in if hotkey_type = ''start'' then
           s\<lparr>key_start := key, config := (config s)(''key_start'' \<mapsto> CStr key_name_clean)\<rparr>
         else if hotkey_type = ''pause'' then
           s\<lparr>key_pause := key, config := (config s)(''key_pause'' \<mapsto> CStr key_name_clean)\<rparr>
         else if hotkey_type = ''exit'' then
           s\<lparr>key_exit := key, config := (config s)(''key_exit'' \<mapsto> CStr key_name_clean)\<rparr>
         else s)"

text \<open>
  \<open>_capture_hotkey_rebind\<close> (PyQt6). \<open>on_press\<close> returns \<open>False\<close>, which stops the
  listener. \<open>listener_obj.join(timeout=15)\<close> only stops waiting: the listener is stopped
  by \<open>listener_obj.stop()\<close> after \<open>dialog.exec()\<close> has returned.
\<close>

fun capture_hotkey_rebind :: "string \<Rightarrow> engine \<times> bool \<Rightarrow> capture_event \<Rightarrow> engine \<times> bool" where
  "capture_hotkey_rebind h (s, listening) (Key_pressed key) =
     (if listening then (on_press_rebind h s key, False) else (s, listening))"
| "capture_hotkey_rebind h (s, listening) Join_timeout = (s, listening)"
| "capture_hotkey_rebind h (s, listening) Dialog_closed = (s, False)"

text \<open>
  \<open>_capture_key\<close> (Tkinter 2.0). The listener runs inside
  \<open>with Listener(...) as listener: listener.join(timeout=5)\<close>, and leaving the \<open>with\<close>
  block stops it. There is no dialog; the stored name comes from \<open>_key_to_string\<close>.
\<close>

definition on_press_capture_key :: "string \<Rightarrow> engine \<Rightarrow> pyval \<Rightarrow> engine" where
  "on_press_capture_key action s key =
     (if action = ''start'' then
        s\<lparr>key_start := key, config := (config s)(''key_start'' \<mapsto> CStr (key_to_string key))\<rparr>
      else if action = ''pause'' then
        s\<lparr>key_pause := key, config := (config s)(''key_pause'' \<mapsto> CStr (key_to_string key))\<rparr>
      else if action = ''exit'' then
        s\<lparr>key_exit := key, config := (config s)(''key_exit'' \<mapsto> CStr (key_to_string key))\<rparr>
      else s)"

fun capture_key :: "string \<Rightarrow> engine \<times> bool \<Rightarrow> capture_event \<Rightarrow> engine \<times> bool" where
  "capture_key a (s, listening) (Key_pressed key) =
     (if listening then (on_press_capture_key a s key, False) else (s, listening))"
| "capture_key a (s, listening) Join_timeout = (s, False)"
| "capture_key a (s, listening) Dialog_closed = (s, listening)"

section \<open>The engine among its threads\<close>

text \<open>
  The listener threads, the window and the execution loops interleave. A system state
  is the engine together with the number of execution-loop threads that have been
  started and have not yet returned; an input is one atomic step of one of the threads.
  \<open>closeEvent\<close> clears \<open>is_running\<close> and stores the button type.
\<close>

definition closeEvent :: "engine \<Rightarrow> engine \<times> event list" where
  "closeEvent s =
     (s\<lparr>is_running := False,
        config := (config s)(''button_type'' \<mapsto> CStr ''esquerdo'')\<rparr>,
      release_all s @ [WriteConfig])"

datatype input =
    Key_press pyval
  | Mouse_click int int button bool
  | Arm_capture
  | Loop_begins int
  | Loop_returns
  | Rebind string pyval
  | Close

fun step :: "engine \<times> nat \<Rightarrow> input \<Rightarrow> engine \<times> nat" where
  "step (s, n) (Key_press k) =
     (fst (on_key_press s k), n + count_list (snd (on_key_press s k)) Spawn)"
| "step (s, n) (Mouse_click x y b p) = (fst (on_mouse_click s x y b p), n)"
| "step (s, n) Arm_capture = (fst (start_capture_mode s), n)"
| "step (s, n) (Loop_begins checked) = (execute_macro_start s checked, n)"
| "step (s, n) Loop_returns = (s, n - 1)"
| "step (s, n) (Rebind h k) = (on_press_rebind h s k, n)"
| "step (s, n) Close = (fst (closeEvent s), n)"

definition run :: "engine \<Rightarrow> input list \<Rightarrow> engine \<times> nat" where
  "run s inputs = foldl step (s, 0) inputs"

section \<open>Concrete states\<close>

text \<open>
  The default state with a captured coordinate and Hold selected, with the default
  timing (500 ms hold, 100 ms delay).
\<close>

definition hold_engine :: engine where
  "hold_engine = (default_engine Key_getattr)
     \<lparr>saved_x := Some 134, saved_y := Some 902, action_type := ''hold'',
      hold_duration_ms := 500, click_delay_ms := 100\<rparr>"

text \<open>
  The state after loading a configuration file that holds \<open>"hold_duration_ms": -100\<close> and
  \<open>"click_delay_ms": 50\<close>: \<open>__init__\<close> takes both numbers as they are, and the spin boxes
  are connected to \<open>_on_timing_changed\<close> only after their values have been set.
\<close>

definition negative_hold_engine :: engine where
  "negative_hold_engine = (default_engine Key_getattr)
     \<lparr>saved_x := Some 10, saved_y := Some 10, action_type := ''hold'',
      hold_duration_ms := - 100, click_delay_ms := 50, is_running := True\<rparr>"

section \<open>Facts about the key normalizer\<close>

lemma lower_char_not_upper: "\<not> is_upper (lower_char c)"
  unfolding lower_char_def is_upper_def Let_def
  by (auto simp: of_char_of)

lemma lower_char_idem: "lower_char (lower_char c) = lower_char c"
  using lower_char_not_upper [of c] by (simp add: lower_char_def [of "lower_char c"])

lemma lower_idem: "lower (lower s) = lower s"
  by (simp add: lower_def lower_char_idem)

lemma lower_no_upper: "c \<in> set (lower s) \<Longrightarrow> \<not> is_upper c"
  by (auto simp: lower_def lower_char_not_upper)

lemma lower_fixed: "(\<And>c. c \<in> set s \<Longrightarrow> \<not> is_upper c) \<Longrightarrow> lower s = s"
  by (induction s) (auto simp: lower_def lower_char_def)

lemma set_strip: "set (strip s) \<subseteq> set s"
proof
  fix c assume "c \<in> set (strip s)"
  then have "c \<in> set (dropWhile is_space (rev (dropWhile is_space s)))"
    by (simp add: strip_def)
  then have "c \<in> set (rev (dropWhile is_space s))"
    by (rule set_dropWhileD)
  then have "c \<in> set (dropWhile is_space s)"
    by simp
  then show "c \<in> set s"
    by (rule set_dropWhileD)
qed

lemma lower_strip_lower: "lower (strip (lower s)) = strip (lower s)"
  using set_strip [of "lower s"] by (intro lower_fixed) (auto dest: lower_no_upper)

lemma set_lstrip_underscore: "set (lstrip_underscore s) \<subseteq> set s"
  unfolding lstrip_underscore_def by (auto dest: set_dropWhileD)

lemma normalize_key_no_upper: "c \<in> set (normalize_key k) \<Longrightarrow> \<not> is_upper c"
  using set_lstrip_underscore
  by (cases k) (auto simp: normalize_key_def dest: lower_no_upper)

lemma lower_Cons: "lower (c # s) = lower_char c # lower s"
  by (simp add: lower_def)

lemma lower_char_underscore: "lower_char CHR ''_'' = CHR ''_''"
  by code_simp

lemma lower_lstrip_lower: "lower (lstrip_underscore (lower n)) = lstrip_underscore (lower n)"
  using set_lstrip_underscore [of "lower n"] by (intro lower_fixed) (auto dest: lower_no_upper)

lemma normalize_key_idempotent:
  "normalize_key (PStr (normalize_key k)) = normalize_key k"
  by (cases k) (simp_all add: normalize_key_def lower_idem lower_lstrip_lower)

text \<open>
  On a value whose \<open>str\<close> returns, the function on objects at large is the function the
  dispatcher uses.
\<close>

lemma normalize_key_obj_Returns: "normalize_key_obj (Returns v) = Inr (normalize_key v)"
  by (cases v) (simp_all add: normalize_key_obj_def normalize_key_def name_obj_def str_obj_def)

lemma normalize_key_obj_named:
  "normalize_key_obj (Raises (Some n) m) = Inr (normalize_key (PNamed n r))"
  by (simp add: normalize_key_obj_def normalize_key_def name_obj_def)

text \<open>
  Claim C10, as stated, fails on "any other object": for an object without a \<open>name\<close>
  whose \<open>__str__\<close> raises, both handlers of \<open>_normalize_key\<close> raise in turn and the
  exception leaves the function.
\<close>

theorem normalize_key_raises_counterexample:
  "name_obj (Raises None ''boom'') = None \<and>
   str_obj (Raises None ''boom'') = Inl ''boom'' \<and>
   normalize_key_obj (Raises None ''boom'') = Inl ''boom''"
  by (simp add: normalize_key_obj_def name_obj_def str_obj_def)

text \<open>
  Claim C10, amended. For every input other than an object without a string \<open>name\<close>
  whose \<open>__str__\<close> raises (so for every string, every object with a string \<open>name\<close>,
  \<open>None\<close>, and every other object whose \<open>str\<close> returns), with text in Latin-1,
  \<open>_normalize_key\<close> returns, its result has no upper-case character, and normalizing the
  result again gives the same string.
\<close>

theorem normalize_key_obj_lower_idempotent:
  assumes "name_obj key \<noteq> None \<or> \<not> isl (str_obj key)"
  shows "\<not> isl (normalize_key_obj key) \<and>
         list_all (\<lambda>c. \<not> is_upper c) (projr (normalize_key_obj key)) \<and>
         normalize_key_obj (Returns (PStr (projr (normalize_key_obj key)))) =
           normalize_key_obj key"
proof -
  have "\<exists>v. normalize_key_obj key = Inr (normalize_key v)"
  proof (cases key)
    case (Returns v)
    then show ?thesis by (auto simp: normalize_key_obj_Returns)
  next
    case (Raises nm m)
    with assms obtain n where "nm = Some n"
      by (auto simp: name_obj_def str_obj_def)
    with Raises show ?thesis
      using normalize_key_obj_named [of n m "[]"] by auto
  qed
  then obtain v where v: "normalize_key_obj key = Inr (normalize_key v)" ..
  have "list_all (\<lambda>c. \<not> is_upper c) (normalize_key v)"
    by (simp add: list_all_iff normalize_key_no_upper)
  then show ?thesis
    by (simp add: v normalize_key_obj_Returns normalize_key_idempotent)
qed

text \<open>Claim C10, amended, on the enum member named \<open>_F1\<close>: the result is \<open>f1\<close>.\<close>

theorem normalize_key_obj_lower_idempotent_witness:
  "\<not> isl (str_obj (Returns (PNamed ''_F1'' ''Key._F1''))) \<and>
   normalize_key_obj (Returns (PNamed ''_F1'' ''Key._F1'')) = Inr ''f1'' \<and>
   \<not> isl (normalize_key_obj (Returns (PNamed ''_F1'' ''Key._F1''))) \<and>
   list_all (\<lambda>c. \<not> is_upper c) (projr (normalize_key_obj (Returns (PNamed ''_F1'' ''Key._F1'')))) \<and>
   normalize_key_obj (Returns (PStr (projr (normalize_key_obj (Returns (PNamed ''_F1'' ''Key._F1''))))))
     = Inr ''f1''"
proof -
  have a: "\<not> isl (str_obj (Returns (PNamed ''_F1'' ''Key._F1'')))"
    by (simp add: str_obj_def)
  have e: "normalize_key (PNamed ''_F1'' ''Key._F1'') = ''f1''"
    by code_simp
  have f: "normalize_key_obj (Returns (PNamed ''_F1'' ''Key._F1'')) = Inr ''f1''"
    by (simp add: normalize_key_obj_Returns e)
  show ?thesis
    using a f normalize_key_obj_lower_idempotent [of "Returns (PNamed ''_F1'' ''Key._F1'')"]
    by simp
qed

text \<open>
  Claim C4, as stated, fails on a single-character name. \<open>Key\<close> has no member \<open>a\<close> or
  \<open>_a\<close>, so \<open>_string_to_key("a")\<close> returns the string \<open>"a"\<close> itself, which is not the
  default \<open>Key.f1\<close>; a string has no \<open>name\<close>, so \<open>_key_to_string\<close> answers \<open>"f1"\<close>,
  while the normalized form of the input is \<open>"a"\<close>.
\<close>

theorem roundtrip_single_character_counterexample:
  "string_to_key Key_getattr (PStr ''a'') = PStr ''a'' \<and>
   key_to_string (string_to_key Key_getattr (PStr ''a'')) = ''f1'' \<and>
   normalize_key (PStr ''a'') = ''a''"
  by code_simp

text \<open>
  Two more names that \<open>_string_to_key\<close> does not answer with the default and that do not
  come back: an alias comes back as the name of its member, and an attribute that is no
  member comes back as \<open>f1\<close>.
\<close>

lemma roundtrip_alias:
  "string_to_key Key_getattr (PStr ''alt_l'') = PNamed ''alt'' ''Key.alt'' \<and>
   key_to_string (string_to_key Key_getattr (PStr ''alt_l'')) = ''alt''"
  by code_simp

lemma roundtrip_class_attribute:
  "string_to_key Key_getattr (PStr ''mro'') = PPlain ''<built-in method mro of EnumType object>'' \<and>
   key_to_string (string_to_key Key_getattr (PStr ''mro'')) = ''f1''"
  by code_simp

text \<open>
  Claim C4, amended. Let \<open>c\<close> be the cleaned name \<open>s.lower().strip()\<close>. If
  \<open>getattr(Key, c)\<close> is an object whose \<open>name\<close> is \<open>c\<close> itself (and \<open>c\<close> does not begin
  with an underscore), or \<open>Key\<close> has no attribute \<open>c\<close> and \<open>getattr(Key, "_" + c)\<close> is an
  object whose \<open>name\<close> is \<open>"_" + c\<close>, then \<open>_key_to_string(_string_to_key(s))\<close> is \<open>c\<close>.
  This covers named keys such as \<open>f1\<close>. Names that come back as a plain character, names
  that are aliases of a member with another name, and attributes without a \<open>name\<close> are
  left out.
\<close>

theorem roundtrip_named_key:
  assumes "K (strip (lower s)) = Some (PNamed (strip (lower s)) r) \<and>
             \<not> startswith_underscore (strip (lower s))
           \<or> K (strip (lower s)) = None \<and>
             K (CHR ''_'' # strip (lower s)) = Some (PNamed (CHR ''_'' # strip (lower s)) r)"
  shows "key_to_string (string_to_key K (PStr s)) = strip (lower s)"
proof -
  let ?c = "strip (lower s)"
  have u: "lower (CHR ''_'' # ?c) = CHR ''_'' # ?c"
    by (simp add: lower_Cons lower_char_underscore lower_strip_lower)
  from assms show ?thesis
  proof
    assume a: "K ?c = Some (PNamed ?c r) \<and> \<not> startswith_underscore ?c"
    then have "string_to_key K (PStr s) = PNamed ?c r"
      by (simp add: string_to_key_def)
    with a show ?thesis
      by (simp add: key_to_string_def lower_strip_lower)
  next
    assume a: "K ?c = None \<and> K (CHR ''_'' # ?c) = Some (PNamed (CHR ''_'' # ?c) r)"
    then have "string_to_key K (PStr s) = PNamed (CHR ''_'' # ?c) r"
      by (simp add: string_to_key_def)
    then show ?thesis
      by (simp add: key_to_string_def u startswith_underscore_def)
  qed
qed

text \<open>Claim C4, amended, on the stored name \<open>" F1 "\<close>, which comes back as \<open>f1\<close>.\<close>

theorem roundtrip_named_key_witness:
  "Key_getattr (strip (lower '' F1 '')) = Some (PNamed (strip (lower '' F1 '')) ''Key.f1'') \<and>
   \<not> startswith_underscore (strip (lower '' F1 '')) \<and>
   key_to_string (string_to_key Key_getattr (PStr '' F1 '')) = ''f1''"
proof -
  have c: "strip (lower '' F1 '') = ''f1''"
    by code_simp
  have h: "Key_getattr ''f1'' = Some (PNamed ''f1'' ''Key.f1'')"
    by code_simp
  have n: "\<not> startswith_underscore ''f1''"
    by code_simp
  show ?thesis
    using c h n roundtrip_named_key [of Key_getattr "'' F1 ''" "''Key.f1''"] by simp
qed

section \<open>Facts about the dispatcher\<close>

lemma default_keys:
  "key_start (default_engine Key_getattr) = Key_f1"
  "key_pause (default_engine Key_getattr) = Key_f2"
  "key_exit (default_engine Key_getattr) = Key_f3"
  unfolding default_engine_def by simp_all code_simp+

lemma normalize_function_keys:
  "normalize_key Key_f1 = ''f1''" "normalize_key Key_f2 = ''f2''" "normalize_key Key_f3 = ''f3''"
  by code_simp+

lemma step_keeps_exclusive:
  "\<not> (is_running (fst c) \<and> is_paused (fst c)) \<Longrightarrow>
   \<not> (is_running (fst (step c i)) \<and> is_paused (fst (step c i)))"
  by (cases c; cases i)
     (auto simp: on_key_press_def on_mouse_click_def start_capture_mode_def
        execute_macro_start_def on_press_rebind_def closeEvent_def Let_def)

lemma foldl_step_keeps_exclusive:
  "\<not> (is_running (fst c) \<and> is_paused (fst c)) \<Longrightarrow>
   \<not> (is_running (fst (foldl step c inputs)) \<and> is_paused (fst (foldl step c inputs)))"
proof (induction inputs arbitrary: c)
  case Nil
  then show ?case by simp
next
  case (Cons i inputs)
  from Cons.prems have "\<not> (is_running (fst (step c i)) \<and> is_paused (fst (step c i)))"
    by (rule step_keeps_exclusive)
  then show ?case
    using Cons.IH [of "step c i"] by simp
qed

text \<open>
  Claim C5. From a state with \<open>is_running\<close> and \<open>is_paused\<close> both false, as \<open>__init__\<close>
  sets them, no sequence of steps (hotkeys and other key presses, mouse clicks, arming
  the capture, the start and the return of execution loops, rebinding, closing the
  window) reaches a state where both flags are true. A step is one whole call of a
  handler; the keyboard listener delivers its calls one after the other.
\<close>

theorem running_paused_never_both:
  assumes "\<not> is_running s0" and "\<not> is_paused s0"
  shows "\<not> (is_running (fst (run s0 inputs)) \<and> is_paused (fst (run s0 inputs)))"
  unfolding run_def using assms by (intro foldl_step_keeps_exclusive) simp

text \<open>
  Claim C5 on a run from the default state: capture a coordinate, press Start, press
  Pause. The run ends paused and not running.
\<close>

theorem running_paused_never_both_witness:
  "\<not> is_running (default_engine Key_getattr) \<and> \<not> is_paused (default_engine Key_getattr) \<and>
   is_paused (fst (run (default_engine Key_getattr)
       [Arm_capture, Mouse_click 134 902 Button_left True, Key_press Key_f1, Key_press Key_f2])) \<and>
   \<not> is_running (fst (run (default_engine Key_getattr)
       [Arm_capture, Mouse_click 134 902 Button_left True, Key_press Key_f1, Key_press Key_f2]))"
proof -
  have a: "\<not> is_running (default_engine Key_getattr)" "\<not> is_paused (default_engine Key_getattr)"
    by (simp_all add: default_engine_def)
  have p: "is_paused (fst (run (default_engine Key_getattr)
       [Arm_capture, Mouse_click 134 902 Button_left True, Key_press Key_f1, Key_press Key_f2]))"
    by (simp add: run_def start_capture_mode_def on_mouse_click_def on_key_press_def Let_def
        normalize_function_keys default_keys)
  show ?thesis
    using a p running_paused_never_both [OF a, of
        "[Arm_capture, Mouse_click 134 902 Button_left True, Key_press Key_f1, Key_press Key_f2]"]
    by simp
qed

text \<open>
  Claim C6. When the pressed key matches the Start binding and \<open>saved_x\<close> or \<open>saved_y\<close>
  is \<open>None\<close>, the handler shows the warning and nothing else: the state is the same
  (so \<open>is_running\<close> and \<open>is_paused\<close> are), and no execution-loop thread is started.
\<close>

theorem start_without_coordinate:
  assumes "normalize_key k = normalize_key (key_start s)"
    and "saved_x s = None \<or> saved_y s = None"
  shows "on_key_press s k = (s, [Warning ''Por favor, capture uma coordenada primeiro!'']) \<and>
         step (s, n) (Key_press k) = (s, n)"
  using assms by (auto simp: on_key_press_def Let_def)

text \<open>Claim C6 on the default state, which has no coordinate, and the key F1.\<close>

theorem start_without_coordinate_witness:
  "normalize_key Key_f1 = normalize_key (key_start (default_engine Key_getattr)) \<and>
   saved_x (default_engine Key_getattr) = None \<and>
   on_key_press (default_engine Key_getattr) Key_f1 =
     (default_engine Key_getattr, [Warning ''Por favor, capture uma coordenada primeiro!'']) \<and>
   step (default_engine Key_getattr, 0) (Key_press Key_f1) = (default_engine Key_getattr, 0)"
proof -
  have a: "normalize_key Key_f1 = normalize_key (key_start (default_engine Key_getattr))"
    by (simp add: default_keys)
  have b: "saved_x (default_engine Key_getattr) = None"
    by (simp add: default_engine_def)
  show ?thesis
    using a b start_without_coordinate [of Key_f1 "default_engine Key_getattr" 0] by simp
qed

text \<open>
  Claim C2, as stated, fails. With a coordinate present, one press of F1 sets
  \<open>is_running\<close> and starts one execution loop; a second press of F1, with \<open>is_running\<close>
  already true, starts another, so two loops are alive at once.
\<close>

theorem start_while_running_counterexample:
  "is_running (fst (run ((default_engine Key_getattr)\<lparr>saved_x := Some 134, saved_y := Some 902\<rparr>)
      [Key_press Key_f1])) \<and>
   snd (run ((default_engine Key_getattr)\<lparr>saved_x := Some 134, saved_y := Some 902\<rparr>)
      [Key_press Key_f1]) = 1 \<and>
   snd (run ((default_engine Key_getattr)\<lparr>saved_x := Some 134, saved_y := Some 902\<rparr>)
      [Key_press Key_f1, Key_press Key_f1]) = 2"
  by (simp add: run_def on_key_press_def Let_def normalize_function_keys default_keys)

text \<open>
  Claim C2, amended. Whenever the pressed key matches the Start binding and a coordinate
  is present, the handler sets \<open>is_running\<close>, clears \<open>is_paused\<close> and starts a new
  execution-loop thread, whatever \<open>is_running\<close> was before: the handler does not test
  the flag, and each such press adds one live loop.
\<close>

theorem start_always_spawns:
  assumes "normalize_key k = normalize_key (key_start s)"
    and "saved_x s \<noteq> None" and "saved_y s \<noteq> None"
  shows "on_key_press s k =
           (s\<lparr>is_running := True, is_paused := False\<rparr>, [Status ''Executando...'' ''success'', Spawn]) \<and>
         step (s, n) (Key_press k) = (s\<lparr>is_running := True, is_paused := False\<rparr>, Suc n)"
  using assms by (auto simp: on_key_press_def Let_def)

text \<open>
  Claim C2, amended, on a state that is already running with one live loop: F1 leaves
  the state as it is and makes the live loops two.
\<close>

theorem start_always_spawns_witness:
  "is_running ((default_engine Key_getattr)\<lparr>saved_x := Some 134, saved_y := Some 902, is_running := True\<rparr>) \<and>
   step ((default_engine Key_getattr)\<lparr>saved_x := Some 134, saved_y := Some 902, is_running := True\<rparr>, 1)
     (Key_press Key_f1) =
   ((default_engine Key_getattr)\<lparr>saved_x := Some 134, saved_y := Some 902, is_running := True\<rparr>, 2)"
proof -
  let ?s = "(default_engine Key_getattr)\<lparr>saved_x := Some 134, saved_y := Some 902, is_running := True\<rparr>"
  have a: "normalize_key Key_f1 = normalize_key (key_start ?s)"
    by (simp add: default_keys)
  have b: "saved_x ?s \<noteq> None" "saved_y ?s \<noteq> None"
    by simp_all
  have c: "?s\<lparr>is_running := True, is_paused := False\<rparr> = ?s"
    by (simp add: default_engine_def)
  show ?thesis
    using c start_always_spawns [OF a b, of 1] by simp
qed

section \<open>Facts about the coordinate capture\<close>

text \<open>
  Claim C7. While capture mode is armed, a mouse press of any button at \<open>(x, y)\<close> stores
  \<open>x\<close> and \<open>y\<close> as the target coordinate, disarms the capture, and puts \<open>saved_x = x\<close> and
  \<open>saved_y = y\<close> into the configuration, rewriting the file after each of the two. A
  release event is ignored, and so is every click after the first press.
\<close>

theorem capture_first_press:
  assumes "capture_mode s"
  shows "saved_x (fst (on_mouse_click s x y b True)) = Some x \<and>
         saved_y (fst (on_mouse_click s x y b True)) = Some y \<and>
         \<not> capture_mode (fst (on_mouse_click s x y b True)) \<and>
         config (fst (on_mouse_click s x y b True)) ''saved_x'' = Some (CInt x) \<and>
         config (fst (on_mouse_click s x y b True)) ''saved_y'' = Some (CInt y) \<and>
         count_list (snd (on_mouse_click s x y b True)) WriteConfig = 2 \<and>
         on_mouse_click s x y b False = (s, []) \<and>
         on_mouse_click (fst (on_mouse_click s x y b True)) x' y' b' p' =
           (fst (on_mouse_click s x y b True), [])"
  using assms by (simp add: on_mouse_click_def)

text \<open>Claim C7 on a press of the middle button at (134, 902) after arming the capture.\<close>

theorem capture_first_press_witness:
  "capture_mode (fst (start_capture_mode (default_engine Key_getattr))) \<and>
   saved_x (fst (on_mouse_click (fst (start_capture_mode (default_engine Key_getattr)))
      134 902 Button_middle True)) = Some 134 \<and>
   saved_y (fst (on_mouse_click (fst (start_capture_mode (default_engine Key_getattr)))
      134 902 Button_middle True)) = Some 902 \<and>
   config (fst (on_mouse_click (fst (start_capture_mode (default_engine Key_getattr)))
      134 902 Button_middle True)) ''saved_x'' = Some (CInt 134) \<and>
   config (fst (on_mouse_click (fst (start_capture_mode (default_engine Key_getattr)))
      134 902 Button_middle True)) ''saved_y'' = Some (CInt 902) \<and>
   \<not> capture_mode (fst (on_mouse_click (fst (start_capture_mode (default_engine Key_getattr)))
      134 902 Button_middle True))"
proof -
  have a: "capture_mode (fst (start_capture_mode (default_engine Key_getattr)))"
    by (simp add: start_capture_mode_def)
  show ?thesis
    using a capture_first_press [OF a, of 134 902 Button_middle] by simp
qed

section \<open>Facts about the execution loops\<close>

lemma slept_append: "slept (xs @ ys) = slept xs + slept ys"
  by (induction xs rule: slept.induct) simp_all

lemma slept_perform_action_hold:
  assumes "a \<noteq> ''click''" and "bad (MPress b) = None" and "0 \<le> hold_duration_ms s"
  shows "slept (perform_action bad s b a) = hold_duration_ms s"
  using assms by (simp add: perform_action_def and_then_def call_def sleep_def)

text \<open>
  Claim C1, as stated, fails. With Hold selected, a hold of 500 ms and a delay of 100 ms,
  one pass of the loop on the left button sleeps 50 ms after the move, 500 ms inside the
  action and 600 ms at its end: 1150 ms, not the 600 ms (650 ms with the settle delay)
  of the claim.
\<close>

theorem hold_cycle_counterexample:
  "action_type hold_engine = ''hold'' \<and>
   hold_duration_ms hold_engine = 500 \<and> click_delay_ms hold_engine = 100 \<and>
   iteration no_faults hold_engine =
     ([Move (Some 134) (Some 902), Sleep 50, MPress Button_left, Sleep 500,
       MRelease Button_left, Sleep 600], Next) \<and>
   slept (fst (iteration no_faults hold_engine)) = 1150"
  by (simp add: hold_engine_def default_engine_def iteration_def perform_action_def
      and_then_def call_def sleep_def no_faults_def Let_def)

text \<open>
  Claim C1, amended. In Hold mode on a mouse button, when the move and the press succeed
  and no sleep length is negative, one pass of the loop sleeps the 50 ms settle delay,
  then \<open>hold_duration_ms\<close> inside the action, then \<open>hold_duration_ms + click_delay_ms\<close> at
  its end: the final sleep comes on top of the hold of the action step.
\<close>

theorem hold_cycle_sleeps:
  assumes "action_type s \<noteq> ''click''"
    and "button_type s = ''esquerdo'' \<or> button_type s = ''direito''"
    and "bad (Move (saved_x s) (saved_y s)) = None"
    and "bad (MPress Button_left) = None" and "bad (MPress Button_right) = None"
    and "0 \<le> hold_duration_ms s" and "0 \<le> hold_duration_ms s + click_delay_ms s"
  shows "slept (fst (iteration bad s)) =
           50 + hold_duration_ms s + (hold_duration_ms s + click_delay_ms s) \<and>
         snd (iteration bad s) = Next"
  using assms
  by (auto simp: iteration_def Let_def and_then_def call_def sleep_def slept_append
      slept_perform_action_hold)

text \<open>Claim C1, amended, on the default timing: 50 + 500 + (500 + 100) ms.\<close>

theorem hold_cycle_sleeps_witness:
  "action_type hold_engine \<noteq> ''click'' \<and> button_type hold_engine = ''esquerdo'' \<and>
   slept (fst (iteration no_faults hold_engine)) = 50 + 500 + (500 + 100)"
proof -
  have a: "action_type hold_engine \<noteq> ''click''"
    by (simp add: hold_engine_def)
  have b: "button_type hold_engine = ''esquerdo'' \<or> button_type hold_engine = ''direito''"
    by (simp add: hold_engine_def default_engine_def)
  have c: "no_faults (Move (saved_x hold_engine) (saved_y hold_engine)) = None"
    "no_faults (MPress Button_left) = None" "no_faults (MPress Button_right) = None"
    by (simp_all add: no_faults_def)
  have d: "0 \<le> hold_duration_ms hold_engine"
    "0 \<le> hold_duration_ms hold_engine + click_delay_ms hold_engine"
    by (simp_all add: hold_engine_def)
  have e: "hold_duration_ms hold_engine = 500" "click_delay_ms hold_engine = 100"
    "button_type hold_engine = ''esquerdo''"
    by (simp_all add: hold_engine_def default_engine_def)
  show ?thesis
    using a e hold_cycle_sleeps [OF a b c d] by simp
qed

text \<open>
  When no exception leaves the loop (it ends by the flag or by the \<open>break\<close> of the
  missing custom key), the run ends with the three releases of \<open>_release_all\<close> followed
  by the status \<open>Parado\<close>.
\<close>

lemma execute_macro_releases_unless_raised:
  assumes "\<And>m. snd (loop (map (\<lambda>p. (fst p, (snd p)\<lparr>button_type := button_map checked\<rparr>)) passes))
             \<noteq> Raised m"
  shows "\<exists>pre. execute_macro checked passes fin =
           pre @ release_all fin @ [Status ''Parado'' ''error'']"
  using assms unfolding execute_macro_def Let_def
  by (cases "snd (loop (map (\<lambda>p. (fst p, (snd p)\<lparr>button_type := button_map checked\<rparr>)) passes))")
     auto

lemma missing_custom_key_exit:
  "execute_macro 2 [(no_faults, hold_engine)] hold_engine =
     [WriteConfig, Status ''Erro: Nenhuma tecla customizada selecionada'' ''error'',
      MRelease Button_left, MRelease Button_right, Status ''Parado'' ''error'']"
  by (simp add: execute_macro_def button_map_def hold_engine_def default_engine_def
      iteration_def release_all_def Let_def)

text \<open>
  Claim C3 against the code: the exit by an exception, in both versions 2.0. With a hold
  duration of -100 ms and a delay of 50 ms the left button is pressed, the sleep inside
  \<open>_perform_action\<close> raises and is swallowed there before the release, and the sleep at
  the end of the pass raises into the handler of \<open>_execute_macro\<close>. The run ends with the
  error status; no release is made before it, neither by the action nor by
  \<open>_release_all\<close>.
\<close>

theorem exception_exit_without_release:
  "execute_macro 0 [(no_faults, negative_hold_engine)] negative_hold_engine =
     [WriteConfig, Move (Some 10) (Some 10), Sleep 50, MPress Button_left,
      Status ''Erro: sleep length must be non-negative'' ''error''] \<and>
   execute_macro_tk no_faults negative_hold_engine [(no_faults, negative_hold_engine)]
       negative_hold_engine =
     [Move (Some 10) (Some 10), Sleep 50, MPress Button_left,
      Status ''Erro: sleep length must be non-negative'' ''error'']"
  by (simp add: execute_macro_def execute_macro_tk_def button_map_def negative_hold_engine_def
      default_engine_def iteration_def iteration_tk_def perform_action_def and_then_def call_def
      sleep_def no_faults_def Let_def)

text \<open>
  Claim C9. In version 1.0, when the move and the press succeed, the run is: move, 100 ms,
  one press of the selected button, then one 50 ms sleep per check of the flag that read
  true, then one release of the same button and the final status. The trace holds one
  press and one release, and no click.
\<close>

theorem v1_single_hold:
  assumes "bad (Move x y) = None"
    and "bad (MPress (if bt = ''esquerdo'' then Button_left else Button_right)) = None"
  shows "execute_macro_v1 bad bt x y n =
           [Move x y, Sleep 100, MPress (if bt = ''esquerdo'' then Button_left else Button_right)] @
           replicate n (Sleep 50) @
           [MRelease (if bt = ''esquerdo'' then Button_left else Button_right),
            Status (case bad (MRelease (if bt = ''esquerdo'' then Button_left else Button_right)) of
                      Some m \<Rightarrow> ''Erro: '' @ m | None \<Rightarrow> ''Parado'') ''red''] \<and>
         length (filter is_press (execute_macro_v1 bad bt x y n)) = 1 \<and>
         length (filter is_release (execute_macro_v1 bad bt x y n)) = 1"
proof -
  have r: "filter is_press (replicate n (Sleep 50)) = []"
    "filter is_release (replicate n (Sleep 50)) = []"
    by (simp_all add: is_press_def is_release_def)
  from assms show ?thesis
    by (auto simp: execute_macro_v1_def Let_def and_then_def call_def sleep_def r
        is_press_def is_release_def split: option.splits)
qed

text \<open>Claim C9 on the right button and a flag that reads true three times.\<close>

theorem v1_single_hold_witness:
  "no_faults (Move (Some 134) (Some 902)) = None \<and>
   execute_macro_v1 no_faults ''direito'' (Some 134) (Some 902) 3 =
     [Move (Some 134) (Some 902), Sleep 100, MPress Button_right,
      Sleep 50, Sleep 50, Sleep 50, MRelease Button_right, Status ''Parado'' ''red'']"
proof -
  have a: "no_faults (Move (Some 134) (Some 902)) = None"
    by (simp add: no_faults_def)
  have b: "no_faults (MPress (if ''direito'' = ''esquerdo'' then Button_left else Button_right)) = None"
    by (simp add: no_faults_def)
  have c: "replicate 3 (Sleep 50) = [Sleep 50, Sleep 50, Sleep 50]"
    by (simp add: numeral_3_eq_3)
  have d: "no_faults (MRelease Button_right) = None"
    by (simp add: no_faults_def)
  show ?thesis
    using a c d v1_single_hold [OF a b, of 3] by simp
qed

section \<open>Facts about the hotkey capture\<close>

text \<open>
  The Tkinter capture is over once its wait has run out: the listener is stopped, the
  state is the one before, and a later key changes nothing.
\<close>

lemma capture_key_timeout_disarms:
  "capture_key a (s, True) Join_timeout = (s, False) \<and>
   capture_key a (capture_key a (s, True) Join_timeout) (Key_pressed k) = (s, False)"
  by simp

text \<open>
  Claim C8 against the code: the PyQt6 capture after its 15 seconds. The end of the wait
  leaves the capture listener delivering keys, so the capture is still armed; the key F5
  pressed afterwards, with the dialog still open, becomes the Start binding and is
  stored under \<open>key_start\<close>.
\<close>

theorem rebind_after_timeout:
  "capture_hotkey_rebind h (s, True) Join_timeout = (s, True) \<and>
   key_start (fst (foldl (capture_hotkey_rebind ''start'') (s, True)
      [Join_timeout, Key_pressed (PNamed ''f5'' ''Key.f5'')])) = PNamed ''f5'' ''Key.f5'' \<and>
   config (fst (foldl (capture_hotkey_rebind ''start'') (s, True)
      [Join_timeout, Key_pressed (PNamed ''f5'' ''Key.f5'')])) ''key_start'' = Some (CStr ''f5'')"
proof -
  have n: "lower (rebind_name (PNamed ''f5'' ''Key.f5'')) = ''f5''"
    by code_simp
  show ?thesis
    by (simp add: on_press_rebind_def Let_def n)
qed

end
